theory Spec2Isabelle
  imports Main "HOL-Library.Multiset"
begin

section \<open>Data model\<close>

text \<open>
  The program is one script, \<^verbatim>\<open>app.py\<close>, run from top to bottom once per user
  interaction.  Everything it keeps lives in two places: the SQLite file
  \<^verbatim>\<open>viralgenix.db\<close> and the per-browser \<^verbatim>\<open>st.session_state\<close>.

  Python \<^verbatim>\<open>str\<close> and \<^verbatim>\<open>bytes\<close> values are both modelled as character lists.
  \<^verbatim>\<open>s.encode('utf-8')\<close> is injective; it is modelled as the identity, the text being
  represented by its encoding.  Letters outside ASCII in the literals of the source
  are written as their UTF-8 bytes.
\<close>

type_synonym str = string
type_synonym bytes = string

definition encode_utf8 :: "str \<Rightarrow> bytes" where
  "encode_utf8 t = t"

text \<open>
  Table \<^verbatim>\<open>users (id INTEGER PRIMARY KEY, username TEXT UNIQUE, password TEXT)\<close> and
  table \<^verbatim>\<open>contents (id INTEGER PRIMARY KEY, user_id INTEGER, tema TEXT, artigo TEXT,
  roteiro TEXT, legendas TEXT, created_at TIMESTAMP DEFAULT CURRENT_TIMESTAMP,
  FOREIGN KEY(user_id) REFERENCES users(id))\<close>.  Rows are kept in rowid order.  The
  third table, \<^verbatim>\<open>insights\<close>, is created but never read or written, and is left out.
  \<^verbatim>\<open>created_at\<close> is the clock reading in whole seconds.
\<close>

record user_row =
  u_id :: int
  username :: str
  password :: bytes

record content_row =
  c_id :: int
  user_id :: int
  tema :: str
  artigo :: str
  roteiro :: str
  legendas :: str
  created_at :: int

record database =
  users :: "user_row list"
  contents :: "content_row list"

text \<open>
  \<^verbatim>\<open>st.session_state\<close> is a dictionary; the four keys the script uses are the four
  fields, \<open>None\<close> standing for an absent key.
\<close>

record session_state =
  logged_in :: "bool option"
  ss_username :: "str option"
  ss_user_id :: "int option"
  last_generated :: "(str \<times> str) option"

record app_state =
  db :: database
  session :: session_state

definition empty_db :: database where
  "empty_db = \<lparr>users = [], contents = []\<rparr>"

definition empty_session :: session_state where
  "empty_session =
     \<lparr>logged_in = None, ss_username = None, ss_user_id = None, last_generated = None\<rparr>"

definition initial_state :: app_state where
  "initial_state = \<lparr>db = empty_db, session = empty_session\<rparr>"

section \<open>What the script takes from outside\<close>

text \<open>
  The \<^verbatim>\<open>bcrypt\<close> package is not part of the repository: its two functions are
  parameters.  \<open>hashpw L p s\<close> is \<^verbatim>\<open>bcrypt.hashpw(p, s)\<close> and \<open>checkpw L p h\<close> is
  \<^verbatim>\<open>bcrypt.checkpw(p, h)\<close>.
\<close>

record bcrypt_lib =
  hashpw :: "bytes \<Rightarrow> bytes \<Rightarrow> bytes"
  checkpw :: "bytes \<Rightarrow> bytes \<Rightarrow> bool"

text \<open>
  One run of the script reads three things from its environment: the value of
  \<^verbatim>\<open>bcrypt.gensalt()\<close>, the database clock behind \<^verbatim>\<open>CURRENT_TIMESTAMP\<close>, and the
  answers of the language model (\<open>None\<close> when the call, or reading
  \<^verbatim>\<open>response.text\<close>, raises).
\<close>

record environment =
  gensalt :: bytes
  current_timestamp :: int
  model :: "str \<Rightarrow> str option"

text \<open>
  The widgets that the user can have acted on when the script runs.  A form or a
  button that the script does not render in the current run cannot be submitted.
\<close>

record gen_widgets =
  w_tema :: str
  w_publico :: str
  w_tendencia :: str
  w_amostra_texto :: str

datatype action =
    No_action
  | Submit_login str str
  | Submit_register str str
  | Press_sair
  | Press_gerar gen_widgets

text \<open>
  What the user is shown.  \<open>Invalid_login\<close> is \<^verbatim>\<open>st.error("Usuario ou senha invalidos.")\<close>,
  \<open>Registered\<close> is \<^verbatim>\<open>st.success("Usuario registrado! Agora voce pode fazer login.")\<close>,
  \<open>Username_exists\<close> is \<^verbatim>\<open>st.error("Esse nome de usuario ja existe.")\<close>,
  \<open>Fill_all_fields\<close> is \<^verbatim>\<open>st.warning("Por favor, preencha todos os campos.")\<close>,
  \<open>Enter_topic\<close> is \<^verbatim>\<open>st.warning("Por favor, insira um tema.")\<close> and
  \<open>AI_error\<close> is \<^verbatim>\<open>st.error(f"Erro ao contatar a IA: {e}")\<close>.
\<close>

datatype message =
    Invalid_login
  | Registered
  | Username_exists
  | Fill_all_fields
  | Enter_topic
  | AI_error

datatype page_result = Returned bool | Rerun_requested

datatype run_end = Finished | Rerun | Crashed

record run_result =
  state :: app_state
  messages :: "message list"
  prompts :: "str list"
  shown_history :: "(str \<times> int) list option"
  ended :: run_end

section \<open>The SQL statements\<close>

datatype sqlite_error = IntegrityError

text \<open>
  An \<^verbatim>\<open>INTEGER PRIMARY KEY\<close> left out of an \<^verbatim>\<open>INSERT\<close> gets one more than the
  largest rowid in the table, and 1 in an empty table.
\<close>

definition next_rowid :: "int list \<Rightarrow> int" where
  "next_rowid ids = (if ids = [] then 1 else Max (set ids) + 1)"

text \<open>
  \<^verbatim>\<open>INSERT INTO users (username, password) VALUES (?, ?)\<close>: the \<^verbatim>\<open>UNIQUE\<close> column
  makes the statement raise when the username is in the table already.
\<close>

definition insert_user :: "database \<Rightarrow> str \<Rightarrow> bytes \<Rightarrow> sqlite_error + database" where
  "insert_user d u h =
     (if u \<in> set (map username (users d)) then Inl IntegrityError
      else Inr (d\<lparr>users := users d @
                  [\<lparr>u_id = next_rowid (map u_id (users d)), username = u, password = h\<rparr>]\<rparr>))"

text \<open>\<^verbatim>\<open>SELECT id, password FROM users WHERE username=?\<close> followed by \<^verbatim>\<open>fetchone()\<close>.\<close>

definition select_user :: "database \<Rightarrow> str \<Rightarrow> (int \<times> bytes) option" where
  "select_user d u =
     (case filter (\<lambda>r. username r = u) (users d) of
        [] \<Rightarrow> None
      | r # _ \<Rightarrow> Some (u_id r, password r))"

text \<open>
  \<^verbatim>\<open>INSERT INTO contents (user_id, tema, artigo, roteiro, legendas) VALUES (?, ?, ?, ?, ?)\<close>.
  The connection is opened by \<^verbatim>\<open>sqlite3.connect\<close> and never sets
  \<^verbatim>\<open>PRAGMA foreign_keys\<close>, so SQLite does not check the \<^verbatim>\<open>FOREIGN KEY\<close> clause:
  the statement checks nothing.
\<close>

definition insert_content ::
  "database \<Rightarrow> int \<Rightarrow> str \<Rightarrow> str \<Rightarrow> str \<Rightarrow> str \<Rightarrow> int \<Rightarrow> database" where
  "insert_content d uid t a r l now =
     d\<lparr>contents := contents d @
         [\<lparr>c_id = next_rowid (map c_id (contents d)), user_id = uid, tema = t,
           artigo = a, roteiro = r, legendas = l, created_at = now\<rparr>]\<rparr>"

text \<open>
  \<^verbatim>\<open>SELECT tema, created_at FROM contents WHERE user_id = ... ORDER BY created_at DESC\<close>.
  Rows with the same \<^verbatim>\<open>created_at\<close> come out in rowid order, which is what SQLite's
  sorter does with ties.
\<close>

definition select_history :: "database \<Rightarrow> int \<Rightarrow> (str \<times> int) list" where
  "select_history d uid =
     map (\<lambda>r. (tema r, created_at r))
       (sort_key (\<lambda>r. - created_at r) (filter (\<lambda>r. user_id r = uid) (contents d)))"

text \<open>
  \<^verbatim>\<open>init_database\<close> issues \<^verbatim>\<open>CREATE TABLE IF NOT EXISTS\<close> three times; on a database
  that has its tables it changes nothing.
\<close>

definition init_database :: "database \<Rightarrow> database" where
  "init_database d = d"

section \<open>The language model\<close>

fun starts_with :: "'a list \<Rightarrow> 'a list \<Rightarrow> bool" where
  "starts_with [] ys = True"
| "starts_with (x # xs) [] = False"
| "starts_with (x # xs) (y # ys) = (x = y \<and> starts_with xs ys)"

text \<open>Python's \<^verbatim>\<open>needle in haystack\<close> on strings.\<close>

fun str_in :: "'a list \<Rightarrow> 'a list \<Rightarrow> bool" where
  "str_in needle [] = (needle = [])"
| "str_in needle (y # ys) = (starts_with needle (y # ys) \<or> str_in needle ys)"

definition generation_error_text :: str where
  "generation_error_text =
     ''Erro ao gerar conte'' @ [CHR 0xC3, CHR 0xBA] @ ''do. Verifique suas permiss'' @
     [CHR 0xC3, CHR 0xB5] @ ''es de API e o faturamento no Google Cloud.''"

definition roteiro_placeholder :: str where
  "roteiro_placeholder =
     ''N'' @ [CHR 0xC3, CHR 0xA3] @ ''o foi poss'' @ [CHR 0xC3, CHR 0xAD] @
     ''vel gerar o roteiro pois a gera'' @ [CHR 0xC3, CHR 0xA7, CHR 0xC3, CHR 0xA3] @
     ''o do artigo falhou.''"

text \<open>\<^verbatim>\<open>ViralContentGenerator.generate_content\<close>: the text, and what is shown.\<close>

definition generate_content :: "(str \<Rightarrow> str option) \<Rightarrow> str \<Rightarrow> str \<times> message list" where
  "generate_content m prompt =
     (case m prompt of
        Some t \<Rightarrow> (t, [])
      | None \<Rightarrow> (generation_error_text, [AI_error]))"

definition prompt_artigo :: "gen_widgets \<Rightarrow> str" where
  "prompt_artigo w =
     ''Escreva um artigo de blog otimizado para SEO sobre '' @ [CHR 0x27] @ w_tema w @
     [CHR 0x27] @ '' para um p'' @ [CHR 0xC3, CHR 0xBA] @ ''blico de '' @ [CHR 0x27] @
     w_publico w @ [CHR 0x27] @ '', conectando com a tend'' @ [CHR 0xC3, CHR 0xAA] @
     ''ncia '' @ [CHR 0x27] @ w_tendencia w @ [CHR 0x27] @ '' e com o tom de '' @
     [CHR 0x27] @ w_amostra_texto w @ [CHR 0x27] @ ''.''"

definition prompt_roteiro :: "str \<Rightarrow> str" where
  "prompt_roteiro artigo_gerado =
     ''Baseado no seguinte artigo, crie um roteiro de v'' @ [CHR 0xC3, CHR 0xAD] @
     ''deo para o YouTube de 10 minutos, com marca'' @
     [CHR 0xC3, CHR 0xA7, CHR 0xC3, CHR 0xB5] @ ''es para cortes virais. Artigo: '' @
     artigo_gerado"

section \<open>Authentication\<close>

text \<open>The body of \<^verbatim>\<open>if submitted:\<close> in the registration form.\<close>

definition register_submit ::
  "bcrypt_lib \<Rightarrow> environment \<Rightarrow> str \<Rightarrow> str \<Rightarrow> app_state \<Rightarrow> app_state \<times> message list" where
  "register_submit L E new_username new_password s =
     (if new_username \<noteq> [] \<and> new_password \<noteq> [] then
        (let hashed_password = hashpw L (encode_utf8 new_password) (gensalt E) in
         case insert_user (db s) new_username hashed_password of
           Inr d \<Rightarrow> (s\<lparr>db := d\<rparr>, [Registered])
         | Inl IntegrityError \<Rightarrow> (s, [Username_exists]))
      else (s, [Fill_all_fields]))"

text \<open>The body of \<^verbatim>\<open>if submitted:\<close> in the login form.\<close>

definition login_submit ::
  "bcrypt_lib \<Rightarrow> str \<Rightarrow> str \<Rightarrow> app_state \<Rightarrow> page_result \<times> app_state \<times> message list" where
  "login_submit L uname pw s =
     (case select_user (db s) uname of
        Some (i, h) \<Rightarrow>
          (if checkpw L (encode_utf8 pw) h then
             (Rerun_requested,
              s\<lparr>session := (session s)\<lparr>logged_in := Some True, ss_username := Some uname,
                                        ss_user_id := Some i\<rparr>\<rparr>, [])
           else (Returned False, s, [Invalid_login]))
      | None \<Rightarrow> (Returned False, s, [Invalid_login]))"

definition login_page ::
  "bcrypt_lib \<Rightarrow> environment \<Rightarrow> action \<Rightarrow> app_state \<Rightarrow> page_result \<times> app_state \<times> message list" where
  "login_page L E a s0 =
     (let s = (if logged_in (session s0) = None
               then s0\<lparr>session := (session s0)\<lparr>logged_in := Some False\<rparr>\<rparr> else s0)
      in if logged_in (session s) = Some True then (Returned True, s, [])
         else (case a of
                 Submit_login uname pw \<Rightarrow> login_submit L uname pw s
               | Submit_register nu np \<Rightarrow>
                   (let (s', ms) = register_submit L E nu np s in (Returned False, s', ms))
               | _ \<Rightarrow> (Returned False, s, [])))"

section \<open>The main page\<close>

text \<open>
  The history expander at the end of \<^verbatim>\<open>main\<close>: shown when \<^verbatim>\<open>user_id\<close> is in the
  session.
\<close>

definition history_expander :: "app_state \<Rightarrow> (str \<times> int) list option" where
  "history_expander s =
     (case ss_user_id (session s) of
        None \<Rightarrow> None
      | Some uid \<Rightarrow> Some (select_history (db s) uid))"

text \<open>
  The body of the button \<^verbatim>\<open>Gerar Conteudo (Artigo e Roteiro)\<close>.  Reading
  \<^verbatim>\<open>st.session_state.user_id\<close> raises when the key is absent; that is after both
  calls to the model.
\<close>

definition gerar_conteudo :: "environment \<Rightarrow> gen_widgets \<Rightarrow> app_state \<Rightarrow> run_result" where
  "gerar_conteudo E w s =
     (if w_tema w \<noteq> [] then
        (let (artigo_gerado, ms1) = generate_content (model E) (prompt_artigo w);
             (roteiro_gerado, ms2, ps2) =
               (if \<not> str_in ''ERRO_IA:'' artigo_gerado then
                  (let (r, ms) = generate_content (model E) (prompt_roteiro artigo_gerado)
                   in (r, ms, [prompt_roteiro artigo_gerado]))
                else (roteiro_placeholder, [], []))
         in case ss_user_id (session s) of
              None \<Rightarrow>
                \<lparr>state = s, messages = ms1 @ ms2, prompts = prompt_artigo w # ps2,
                 shown_history = None, ended = Crashed\<rparr>
            | Some uid \<Rightarrow>
                \<lparr>state =
                   s\<lparr>db := insert_content (db s) uid (w_tema w) artigo_gerado roteiro_gerado []
                              (current_timestamp E),
                     session := (session s)\<lparr>last_generated :=
                                               Some (artigo_gerado, roteiro_gerado)\<rparr>\<rparr>,
                 messages = ms1 @ ms2, prompts = prompt_artigo w # ps2,
                 shown_history = None, ended = Rerun\<rparr>)
      else \<lparr>state = s, messages = [Enter_topic], prompts = [],
             shown_history = history_expander s, ended = Finished\<rparr>)"

text \<open>
  One run of \<^verbatim>\<open>main\<close>.  \<^verbatim>\<open>st.rerun()\<close> ends the run.  The sidebar greets the user
  by \<^verbatim>\<open>st.session_state.username\<close>, which raises when the key is absent.
\<close>

definition main :: "bcrypt_lib \<Rightarrow> environment \<Rightarrow> action \<Rightarrow> app_state \<Rightarrow> run_result" where
  "main L E a s0 =
     (case login_page L E a (s0\<lparr>db := init_database (db s0)\<rparr>) of
        (Rerun_requested, s, ms) \<Rightarrow>
          \<lparr>state = s, messages = ms, prompts = [], shown_history = None, ended = Rerun\<rparr>
      | (Returned False, s, ms) \<Rightarrow>
          \<lparr>state = s, messages = ms, prompts = [], shown_history = None, ended = Finished\<rparr>
      | (Returned True, s, ms) \<Rightarrow>
          (case ss_username (session s) of
             None \<Rightarrow>
               \<lparr>state = s, messages = ms, prompts = [], shown_history = None, ended = Crashed\<rparr>
           | Some _ \<Rightarrow>
               (case a of
                  Press_sair \<Rightarrow>
                    \<lparr>state = s\<lparr>session := empty_session\<rparr>, messages = [], prompts = [],
                     shown_history = None, ended = Rerun\<rparr>
                | Press_gerar w \<Rightarrow> gerar_conteudo E w s
                | _ \<Rightarrow>
                    \<lparr>state = s, messages = [], prompts = [],
                     shown_history = history_expander s, ended = Finished\<rparr>)))"

text \<open>The states the application can be in: any number of runs from the empty start.\<close>

inductive reachable :: "bcrypt_lib \<Rightarrow> app_state \<Rightarrow> bool" for L :: bcrypt_lib where
  start: "reachable L initial_state"
| run: "reachable L s \<Longrightarrow> reachable L (state (main L E a s))"

definition anonymous :: "app_state \<Rightarrow> bool" where
  "anonymous s = (logged_in (session s) \<noteq> Some True)"

text \<open>
  A stand-in for the library, one environment and a few states the application
  reaches, for instantiating the theorems below at concrete inputs.  The stand-in
  hashes by putting a dollar sign and the two-byte salt in front, and checks by
  stripping them.
\<close>

definition example_bcrypt :: bcrypt_lib where
  "example_bcrypt = \<lparr>hashpw = (\<lambda>p s. ''$'' @ s @ p), checkpw = (\<lambda>q h. drop 3 h = q)\<rparr>"

definition example_env :: environment where
  "example_env =
     \<lparr>gensalt = ''s1'', current_timestamp = 100, model = (\<lambda>p. Some ''generated'')\<rparr>"

definition failing_article_env :: environment where
  "failing_article_env =
     \<lparr>gensalt = ''s1'', current_timestamp = 100,
      model = (\<lambda>p. if starts_with ''Escreva'' p then None else Some ''ROTEIRO'')\<rparr>"

definition topic_widgets :: gen_widgets where
  "topic_widgets =
     \<lparr>w_tema = ''produtividade'', w_publico = ''Geral'', w_tendencia = [],
      w_amostra_texto = []\<rparr>"

definition after_register :: app_state where
  "after_register =
     state (main example_bcrypt example_env (Submit_register ''alice'' ''secret1'')
              initial_state)"

definition after_login :: app_state where
  "after_login =
     state (main example_bcrypt example_env (Submit_login ''alice'' ''secret1'')
              after_register)"


section \<open>Auxiliary facts\<close>

lemma init_database_same [simp]: "s\<lparr>db := init_database (db s)\<rparr> = s"
  by (simp add: init_database_def)

lemma select_user_None: "(select_user d u = None) = (u \<notin> set (map username (users d)))"
proof -
  have "(select_user d u = None) = (filter (\<lambda>r. username r = u) (users d) = [])"
    by (simp add: select_user_def split: list.splits)
  also have "\<dots> = (u \<notin> set (map username (users d)))"
    by (auto simp: filter_empty_conv)
  finally show ?thesis .
qed



lemma anonymous_normalise:
  "anonymous s \<Longrightarrow>
   (if logged_in (session s) = None then s\<lparr>session := (session s)\<lparr>logged_in := Some False\<rparr>\<rparr> else s)
     = s\<lparr>session := (session s)\<lparr>logged_in := Some False\<rparr>\<rparr>"
  by (cases "logged_in (session s)") (auto simp: anonymous_def)

lemma login_page_anonymous:
  "anonymous s \<Longrightarrow>
   login_page L E a s =
     (let s1 = s\<lparr>session := (session s)\<lparr>logged_in := Some False\<rparr>\<rparr> in
      case a of
        Submit_login uname pw \<Rightarrow> login_submit L uname pw s1
      | Submit_register nu np \<Rightarrow>
          (let (s', ms) = register_submit L E nu np s1 in (Returned False, s', ms))
      | _ \<Rightarrow> (Returned False, s1, []))"
  by (simp add: login_page_def anonymous_normalise Let_def)




lemma login_page_logged_in:
  "logged_in (session s) = Some True \<Longrightarrow> login_page L E a s = (Returned True, s, [])"
  by (simp add: login_page_def)

lemma gerar_conteudo_users: "users (db (state (gerar_conteudo E w s))) = users (db s)"
  by (simp add: gerar_conteudo_def insert_content_def Let_def split: prod.splits option.splits)

lemma main_users_cases:
  "users (db (state (main L E a s))) = users (db s) \<or>
   (\<exists>u p. a = Submit_register u p \<and> anonymous s \<and> u \<noteq> [] \<and> p \<noteq> [] \<and>
          u \<notin> set (map username (users (db s))) \<and>
          users (db (state (main L E a s))) =
            users (db s) @ [\<lparr>u_id = next_rowid (map u_id (users (db s))), username = u,
                             password = hashpw L (encode_utf8 p) (gensalt E)\<rparr>])"
proof (cases "logged_in (session s) = Some True")
  case True
  then show ?thesis
    by (cases a) (simp_all add: main_def login_page_logged_in gerar_conteudo_users
                     split: option.splits)
next
  case False
  then have anon: "anonymous s" by (simp add: anonymous_def)
  show ?thesis
  proof (cases a)
    case (Submit_register u p)
    with anon show ?thesis
      by (simp add: main_def login_page_anonymous register_submit_def insert_user_def Let_def)
  next
    case (Submit_login u p)
    with anon show ?thesis
      by (simp add: main_def login_page_anonymous login_submit_def Let_def
               split: option.splits)
  qed (use anon in \<open>simp_all add: main_def login_page_anonymous\<close>)
qed





lemma reachable_usernames:
  "reachable L s \<Longrightarrow>
   distinct (map username (users (db s))) \<and> [] \<notin> set (map username (users (db s)))"
proof (induction rule: reachable.induct)
  case start
  then show ?case by (simp add: initial_state_def empty_db_def)
next
  case (run s E a)
  from main_users_cases [of L E a s] run.IH show ?case by auto
qed


lemma after_register_eval:
  "after_register =
     \<lparr>db = \<lparr>users = [\<lparr>u_id = 1, username = ''alice'', password = ''$s1secret1''\<rparr>],
             contents = []\<rparr>,
      session = \<lparr>logged_in = Some False, ss_username = None, ss_user_id = None,
                 last_generated = None\<rparr>\<rparr>"
  by (simp add: after_register_def main_def login_page_def register_submit_def
        insert_user_def next_rowid_def initial_state_def empty_db_def empty_session_def
        example_bcrypt_def example_env_def encode_utf8_def init_database_def)

lemma after_login_eval:
  "after_login =
     \<lparr>db = \<lparr>users = [\<lparr>u_id = 1, username = ''alice'', password = ''$s1secret1''\<rparr>],
             contents = []\<rparr>,
      session = \<lparr>logged_in = Some True, ss_username = Some ''alice'', ss_user_id = Some 1,
                 last_generated = None\<rparr>\<rparr>"
  by (simp add: after_login_def after_register_eval main_def login_page_def login_submit_def
        select_user_def example_bcrypt_def encode_utf8_def init_database_def)

lemma reachable_after_register: "reachable example_bcrypt after_register"
  unfolding after_register_def by (rule reachable.run [OF reachable.start])





section \<open>Credential store\<close>



text \<open>
  C3.  From the anonymous state a login is refused with the invalid-credentials
  message exactly when the store has no account of that username or the library's check
  of the password against the stored hash fails.  A refused login gives one and the same
  result whatever the cause: the same message, nothing sent to the model, the store
  untouched and the session still anonymous.  Any other login authenticates as that
  username, and a username that is not in the store is never authenticated.
\<close>

theorem login_invalid_credentials:
  assumes "anonymous s"
  shows "(messages (main L E (Submit_login u p) s) = [Invalid_login] \<longleftrightarrow>
            (u \<notin> set (map username (users (db s))) \<or>
             (\<exists>i h. select_user (db s) u = Some (i, h) \<and> \<not> checkpw L (encode_utf8 p) h))) \<and>
         (messages (main L E (Submit_login u p) s) = [Invalid_login] \<longrightarrow>
            main L E (Submit_login u p) s =
              \<lparr>state = s\<lparr>session := (session s)\<lparr>logged_in := Some False\<rparr>\<rparr>,
               messages = [Invalid_login], prompts = [], shown_history = None,
               ended = Finished\<rparr>) \<and>
         (messages (main L E (Submit_login u p) s) \<noteq> [Invalid_login] \<longrightarrow>
            logged_in (session (state (main L E (Submit_login u p) s))) = Some True \<and>
            ss_username (session (state (main L E (Submit_login u p) s))) = Some u) \<and>
         (u \<notin> set (map username (users (db s))) \<longrightarrow>
            anonymous (state (main L E (Submit_login u p) s)))"
proof (cases "select_user (db s) u")
  case None
  then have "u \<notin> set (map username (users (db s)))" by (simp add: select_user_None)
  with None assms show ?thesis
    by (simp add: main_def login_page_anonymous login_submit_def anonymous_def)
next
  case (Some ih)
  obtain i h where ih: "ih = (i, h)" by (cases ih)
  from Some have "u \<in> set (map username (users (db s)))"
    using select_user_None [of "db s" u] by auto
  with Some ih assms show ?thesis
    by (cases "checkpw L (encode_utf8 p) h")
       (simp_all add: main_def login_page_anonymous login_submit_def anonymous_def Let_def)
qed

theorem login_invalid_credentials_witness:
  "anonymous after_register \<and>
   main example_bcrypt example_env (Submit_login ''bob'' ''secret1'') after_register =
     \<lparr>state = after_register\<lparr>session := (session after_register)\<lparr>logged_in := Some False\<rparr>\<rparr>,
      messages = [Invalid_login], prompts = [], shown_history = None, ended = Finished\<rparr> \<and>
   main example_bcrypt example_env (Submit_login ''alice'' ''wrong'') after_register =
     \<lparr>state = after_register\<lparr>session := (session after_register)\<lparr>logged_in := Some False\<rparr>\<rparr>,
      messages = [Invalid_login], prompts = [], shown_history = None, ended = Finished\<rparr> \<and>
   anonymous (state (main example_bcrypt example_env (Submit_login ''bob'' ''secret1'')
                       after_register))"
proof -
  have a: "anonymous after_register" by (simp add: after_register_eval anonymous_def)
  have nobob: "''bob'' \<notin> set (map username (users (db after_register)))"
    by (simp add: after_register_eval)
  have sel: "select_user (db after_register) ''alice'' = Some (1, ''$s1secret1'')"
    by (simp add: after_register_eval select_user_def)
  have bad: "\<not> checkpw example_bcrypt (encode_utf8 ''wrong'') ''$s1secret1''"
    by (simp add: example_bcrypt_def encode_utf8_def)
  note B = login_invalid_credentials [OF a, of example_bcrypt example_env "''bob''" "''secret1''"]
  note A = login_invalid_credentials [OF a, of example_bcrypt example_env "''alice''" "''wrong''"]
  from B nobob have b1: "main example_bcrypt example_env (Submit_login ''bob'' ''secret1'') after_register =
     \<lparr>state = after_register\<lparr>session := (session after_register)\<lparr>logged_in := Some False\<rparr>\<rparr>,
      messages = [Invalid_login], prompts = [], shown_history = None, ended = Finished\<rparr>"
    by blast
  from B nobob have b2: "anonymous (state (main example_bcrypt example_env
                           (Submit_login ''bob'' ''secret1'') after_register))"
    by blast
  from A sel bad have a1: "main example_bcrypt example_env (Submit_login ''alice'' ''wrong'') after_register =
     \<lparr>state = after_register\<lparr>session := (session after_register)\<lparr>logged_in := Some False\<rparr>\<rparr>,
      messages = [Invalid_login], prompts = [], shown_history = None, ended = Finished\<rparr>"
    by blast
  from a b1 a1 b2 show ?thesis by blast
qed

text \<open>
  C2.  In a state the application reaches, registering a username that is already in
  the store never adds an account: the store is left as it was.  With a non-empty
  password the attempt is refused with the username-exists message; with an empty
  password the emptiness check comes first and the attempt is refused with the
  fill-all-fields message instead.  The usernames in the store are pairwise distinct.
\<close>

theorem duplicate_username_rejected:
  assumes "reachable L s" and "anonymous s" and "u \<in> set (map username (users (db s)))"
  shows "db (state (main L E (Submit_register u p) s)) = db s \<and>
         (p \<noteq> [] \<longrightarrow> messages (main L E (Submit_register u p) s) = [Username_exists]) \<and>
         (p = [] \<longrightarrow> messages (main L E (Submit_register u p) s) = [Fill_all_fields]) \<and>
         distinct (map username (users (db s)))"
proof -
  from reachable_usernames [OF assms(1)]
  have d: "distinct (map username (users (db s)))"
    and n: "[] \<notin> set (map username (users (db s)))" by blast+
  from n assms(3) have ne: "u \<noteq> []" by blast
  from assms(2,3) ne d show ?thesis
    by (simp add: main_def login_page_anonymous register_submit_def insert_user_def Let_def)
qed

theorem duplicate_username_rejected_witness:
  "reachable example_bcrypt after_register \<and> anonymous after_register \<and>
   ''alice'' \<in> set (map username (users (db after_register))) \<and>
   db (state (main example_bcrypt example_env (Submit_register ''alice'' ''other'')
                after_register)) = db after_register \<and>
   messages (main example_bcrypt example_env (Submit_register ''alice'' ''other'')
               after_register) = [Username_exists] \<and>
   messages (main example_bcrypt example_env (Submit_register ''alice'' [])
               after_register) = [Fill_all_fields] \<and>
   distinct (map username (users (db after_register)))"
proof -
  have a: "anonymous after_register" by (simp add: after_register_eval anonymous_def)
  have m: "''alice'' \<in> set (map username (users (db after_register)))"
    by (simp add: after_register_eval)
  have ne: "''other'' \<noteq> []" by simp
  note R = duplicate_username_rejected [OF reachable_after_register a m, of example_env]
  from R [of "''other''"] ne R [of "[]"] reachable_after_register a m show ?thesis by blast
qed

text \<open>
  With the empty password the second registration of a stored username is not answered
  with the username-exists message.
\<close>

theorem duplicate_empty_password_counterexample:
  "''alice'' \<in> set (map username (users (db after_register))) \<and>
   messages (main example_bcrypt example_env (Submit_register ''alice'' [])
               after_register) \<noteq> [Username_exists]"
  by (simp add: after_register_eval main_def login_page_def register_submit_def
        init_database_def)



text \<open>
  C9.  From the anonymous state, a registration in which the username or the password
  is empty shows the fill-all-fields warning and leaves the database as it was.
\<close>

theorem register_empty_field_invalid_input:
  assumes "anonymous s" and "u = [] \<or> p = []"
  shows "messages (main L E (Submit_register u p) s) = [Fill_all_fields] \<and>
         db (state (main L E (Submit_register u p) s)) = db s \<and>
         ended (main L E (Submit_register u p) s) = Finished"
  using assms
  by (auto simp: main_def login_page_anonymous register_submit_def Let_def)

theorem register_empty_field_invalid_input_witness:
  "anonymous initial_state \<and>
   messages (main example_bcrypt example_env (Submit_register ''alice'' []) initial_state) =
     [Fill_all_fields] \<and>
   db (state (main example_bcrypt example_env (Submit_register ''alice'' []) initial_state)) =
     db initial_state \<and>
   messages (main example_bcrypt example_env (Submit_register [] ''secret1'') initial_state) =
     [Fill_all_fields] \<and>
   db (state (main example_bcrypt example_env (Submit_register [] ''secret1'') initial_state)) =
     db initial_state"
proof -
  have a: "anonymous initial_state"
    by (simp add: anonymous_def initial_state_def empty_session_def)
  have e1: "''alice'' = [] \<or> ([] :: str) = []" by simp
  have e2: "([] :: str) = [] \<or> ''secret1'' = []" by simp
  from register_empty_field_invalid_input [OF a e1, of example_bcrypt example_env]
       register_empty_field_invalid_input [OF a e2, of example_bcrypt example_env] a
  show ?thesis by blast
qed

section \<open>Session\<close>

text \<open>
  C7.  A registration submitted from the anonymous state, whether it is accepted,
  refused as a duplicate or refused for an empty field, leaves the session anonymous:
  no key of the session other than \<^verbatim>\<open>logged_in\<close>, which is set to false, is written.
\<close>

theorem register_stays_anonymous:
  assumes "anonymous s"
  shows "anonymous (state (main L E (Submit_register u p) s)) \<and>
         session (state (main L E (Submit_register u p) s)) =
           (session s)\<lparr>logged_in := Some False\<rparr> \<and>
         messages (main L E (Submit_register u p) s) \<in>
           {[Registered], [Username_exists], [Fill_all_fields]}"
  using assms
  by (auto simp: main_def login_page_anonymous register_submit_def anonymous_def Let_def
           insert_user_def)

theorem register_stays_anonymous_witness:
  "anonymous initial_state \<and>
   anonymous (state (main example_bcrypt example_env (Submit_register ''alice'' ''secret1'')
                       initial_state)) \<and>
   anonymous after_register \<and>
   anonymous (state (main example_bcrypt example_env (Submit_register ''alice'' ''other'')
                       after_register))"
proof -
  have a: "anonymous initial_state"
    by (simp add: anonymous_def initial_state_def empty_session_def)
  have b: "anonymous after_register" by (simp add: after_register_eval anonymous_def)
  from register_stays_anonymous [OF a, of example_bcrypt example_env "''alice''" "''secret1''"]
       register_stays_anonymous [OF b, of example_bcrypt example_env "''alice''" "''other''"]
       a b
  show ?thesis by blast
qed

section \<open>Content store\<close>







section \<open>Content generation\<close>

text \<open>
  C6.  The text that \<^verbatim>\<open>generate_content\<close> returns when the model call fails does not
  contain the marker \<^verbatim>\<open>ERRO_IA:\<close> that \<^verbatim>\<open>main\<close> tests for.  When the call for the
  article fails, the script is therefore still asked for, with the error text as the
  article, and what that second call returns is stored as the script; the placeholder
  of the other branch is not used.
\<close>

theorem article_failure_still_asks_for_script:
  "model failing_article_env (prompt_artigo topic_widgets) = None \<and>
   prompts (main example_bcrypt failing_article_env (Press_gerar topic_widgets) after_login) =
     [prompt_artigo topic_widgets, prompt_roteiro generation_error_text] \<and>
   map roteiro (contents (db (state
     (main example_bcrypt failing_article_env (Press_gerar topic_widgets) after_login)))) =
     [''ROTEIRO''] \<and>
   map artigo (contents (db (state
     (main example_bcrypt failing_article_env (Press_gerar topic_widgets) after_login)))) =
     [generation_error_text] \<and>
   ''ROTEIRO'' \<noteq> roteiro_placeholder"
proof -
  have f: "model failing_article_env (prompt_artigo topic_widgets) = None"
    by (simp add: failing_article_env_def prompt_artigo_def)
  have g: "model failing_article_env (prompt_roteiro generation_error_text) = Some ''ROTEIRO''"
    by (simp add: failing_article_env_def prompt_roteiro_def)
  have n: "\<not> str_in ''ERRO_IA:'' generation_error_text"
    by (simp add: generation_error_text_def)
  have t: "w_tema topic_widgets \<noteq> []" by (simp add: topic_widgets_def)
  have r: "''ROTEIRO'' \<noteq> roteiro_placeholder" by (simp add: roteiro_placeholder_def)
  show ?thesis using f g n t r
    by (simp add: after_login_eval main_def login_page_def gerar_conteudo_def
          generate_content_def insert_content_def init_database_def Let_def)
qed

text \<open>
  C10.  Pressing the generation button with an empty topic leaves the database as it
  was and sends nothing to the model; in a logged-in session the enter-a-topic warning
  is all that is shown, and the state is unchanged.
\<close>

theorem empty_topic_no_generation:
  assumes "w_tema w = []"
  shows "db (state (main L E (Press_gerar w) s)) = db s \<and>
         prompts (main L E (Press_gerar w) s) = [] \<and>
         (logged_in (session s) = Some True \<and> ss_username (session s) \<noteq> None \<longrightarrow>
            messages (main L E (Press_gerar w) s) = [Enter_topic] \<and>
            state (main L E (Press_gerar w) s) = s)"
  using assms
  by (auto simp: main_def login_page_def gerar_conteudo_def Let_def split: option.splits)

theorem empty_topic_no_generation_witness:
  "w_tema (topic_widgets\<lparr>w_tema := []\<rparr>) = [] \<and>
   db (state (main example_bcrypt example_env (Press_gerar (topic_widgets\<lparr>w_tema := []\<rparr>))
                after_login)) = db after_login \<and>
   prompts (main example_bcrypt example_env (Press_gerar (topic_widgets\<lparr>w_tema := []\<rparr>))
              after_login) = [] \<and>
   messages (main example_bcrypt example_env (Press_gerar (topic_widgets\<lparr>w_tema := []\<rparr>))
               after_login) = [Enter_topic]"
proof -
  have e: "w_tema (topic_widgets\<lparr>w_tema := []\<rparr>) = []" by simp
  have l: "logged_in (session after_login) = Some True \<and>
           ss_username (session after_login) \<noteq> None"
    by (simp add: after_login_eval)
  from empty_topic_no_generation [OF e, of example_bcrypt example_env after_login] l e
  show ?thesis by blast
qed

end
